theory Spec2Isabelle
  imports Main
begin

section \<open>Data model\<close>

text \<open>
  The service keeps two Firestore collections per user, both keyed by a calendar day:
  \<^verbatim>\<open>users/{uid}/user_sessions/{date}\<close> and \<^verbatim>\<open>users/{uid}/chat_history/{date}\<close>.
  A Firestore document is a dictionary, and so is every element of its arrays. The model
  keeps the keys the program reads or writes and lets each of them be absent
  (\<open>None\<close>), since \<^verbatim>\<open>chat["session_id"]\<close> raises \<^verbatim>\<open>KeyError\<close> on a dictionary
  without that key while \<^verbatim>\<open>chat.get("user_message")\<close> does not. Field values are
  strings, as the HTTP interface declares them.
\<close>

type_synonym uid = string
type_synonym date_str = string

record chat_entry =
  ce_session_id :: "string option"
  ce_user_message :: "string option"
  ce_bot_message :: "string option"
  ce_timestamp :: "string option"

record user_message_entry =
  um_session_id :: "string option"
  um_user_message :: "string option"
  um_timestamp :: "string option"

record history_doc =
  hd_date :: "string option"
  hd_chats :: "chat_entry list option"

record session_doc =
  sd_date :: "string option"
  sd_user_messages :: "user_message_entry list option"

text \<open>
  The database \<^verbatim>\<open>db\<close>. A document is addressed by its path, the list of the
  segments between the \<^verbatim>\<open>/\<close> of \<^verbatim>\<open>users/{uid}/chat_history/{date}\<close>; the segment
  before the last one names the collection, so the documents of the two collections
  are kept in two maps. A lookup that gives no document is \<^verbatim>\<open>chat_doc.exists == False\<close>.
\<close>

type_synonym path = "string list"

record store =
  user_sessions :: "path \<Rightarrow> session_doc option"
  chat_history :: "path \<Rightarrow> history_doc option"

text \<open>One element of the conversation sent to the completion service.\<close>

record message =
  role :: string
  content :: string

text \<open>
  One element of the list that \<^verbatim>\<open>GET /get_chat_history\<close> returns; \<open>text_of\<close> is
  its key \<^verbatim>\<open>text\<close>.
\<close>

record display_item =
  sender :: string
  text_of :: string

text \<open>
  The exceptions that leave a handler uncaught: a missing dictionary key, a request
  body that is no JSON object (\<^verbatim>\<open>request.json\<close> raises, or \<^verbatim>\<open>data.get\<close> does), a
  \<^verbatim>\<open>ValueError\<close> (an empty separator given to \<^verbatim>\<open>str.split\<close>, or a document path of
  odd length), an index out of range, and a failure of the completion service.
  Failures of the store's remote calls are outside the model.
\<close>

datatype error = KeyError string | NoJsonObject | ValueError | IndexError | UpstreamFailure

text \<open>
  What the program takes from outside: the module constant \<^verbatim>\<open>system_prompt\<close> (Marathi
  and English prose, whose characters no property depends on), the identity service
  behind \<^verbatim>\<open>auth.verify_id_token\<close> followed by \<^verbatim>\<open>decoded_token['uid']\<close> (\<open>None\<close>
  when either raises), and the completion service behind \<^verbatim>\<open>get_response\<close>
  (\<open>None\<close> when it raises).
\<close>

record env =
  system_prompt :: string
  verify_id_token :: "string \<Rightarrow> string option"
  get_response :: "message list \<Rightarrow> string option"

section \<open>Python values and strings\<close>

text \<open>
  \<^verbatim>\<open>if x\<close> on a value that is a string or \<^verbatim>\<open>None\<close>: false for \<^verbatim>\<open>None\<close> and for the
  empty string. \<open>py_or x d\<close> is \<^verbatim>\<open>x or d\<close>.
\<close>

fun truthy :: "string option \<Rightarrow> bool" where
  "truthy None = False"
| "truthy (Some s) = (s \<noteq> [])"

fun py_or :: "string option \<Rightarrow> string \<Rightarrow> string" where
  "py_or None d = d"
| "py_or (Some s) d = (if s \<noteq> [] then s else d)"

text \<open>\<^verbatim>\<open>s.startswith(p)\<close>, and \<^verbatim>\<open>s.find(sep)\<close> with \<open>None\<close> for Python's \<open>-1\<close>.\<close>

definition startswith :: "string \<Rightarrow> string \<Rightarrow> bool" where
  "startswith s p \<longleftrightarrow> take (length p) s = p"

fun find_sub :: "string \<Rightarrow> string \<Rightarrow> nat option" where
  "find_sub sep [] = (if sep = [] then Some 0 else None)"
| "find_sub sep (c # cs) =
     (if startswith (c # cs) sep then Some 0 else map_option Suc (find_sub sep cs))"

lemma find_sub_bound: "find_sub sep s = Some i \<Longrightarrow> i + length sep \<le> length s"
proof (induction s arbitrary: i)
  case Nil
  then show ?case by (simp split: if_splits)
next
  case (Cons c cs)
  show ?case
  proof (cases "startswith (c # cs) sep")
    case True
    then have "length (take (length sep) (c # cs)) = length sep"
      by (simp add: startswith_def)
    then have "length sep \<le> length (c # cs)"
      by simp
    moreover from True Cons.prems have "i = 0" by simp
    ultimately show ?thesis by simp
  next
    case False
    with Cons.prems obtain j where "find_sub sep cs = Some j" "i = Suc j"
      by auto
    with Cons.IH show ?thesis by fastforce
  qed
qed

lemma find_sub_drop:
  "sep \<noteq> [] \<Longrightarrow> find_sub sep s = Some i \<Longrightarrow> length s - (i + length sep) < length s"
  using find_sub_bound [of sep s i] by (cases sep) auto

text \<open>
  \<^verbatim>\<open>s.split(sep)\<close> for a separator that is not empty: the pieces of \<open>s\<close> between the
  occurrences of \<open>sep\<close>, found from the left and not overlapping.
\<close>

function split_at :: "string \<Rightarrow> string \<Rightarrow> string list" where
  "split_at sep s =
     (if sep = [] then [s]
      else case find_sub sep s of
             None \<Rightarrow> [s]
           | Some i \<Rightarrow> take i s # split_at sep (drop (i + length sep) s))"
  by pat_completeness auto
termination
  by (relation "measure (\<lambda>(sep, s). length s)") (simp_all add: find_sub_drop)

declare split_at.simps [simp del]

text \<open>\<^verbatim>\<open>s.split(sep)\<close>: Python raises \<^verbatim>\<open>ValueError\<close> on an empty separator.\<close>

definition py_split :: "string \<Rightarrow> string \<Rightarrow> error + string list" where
  "py_split s sep = (if sep = [] then Inl ValueError else Inr (split_at sep s))"

text \<open>\<^verbatim>\<open>sep.join(xs)\<close>\<close>

fun py_join :: "string \<Rightarrow> string list \<Rightarrow> string" where
  "py_join sep [] = []"
| "py_join sep [x] = x"
| "py_join sep (x # y # ys) = x @ sep @ py_join sep (y # ys)"

section \<open>Document references\<close>

text \<open>
  The Firestore client builds a reference from a parent path and an identifier.
  \<^verbatim>\<open>collection.document(document_id)\<close> joins the collection's segments and the
  identifier with \<^verbatim>\<open>/\<close>, splits the joined string at \<^verbatim>\<open>/\<close> again, and raises
  \<^verbatim>\<open>ValueError\<close> unless the number of segments is even; an identifier that contains
  \<^verbatim>\<open>/\<close> therefore counts as several segments. \<^verbatim>\<open>document.collection(collection_id)\<close>
  appends the identifier and raises \<^verbatim>\<open>ValueError\<close> unless the number of segments is odd.
\<close>

definition document_ref :: "path \<Rightarrow> string \<Rightarrow> error + path" where
  "document_ref collection_path document_id =
     (let joined_path = py_join ''/'' (collection_path @ [document_id]);
          segments = split_at ''/'' joined_path
      in if even (length segments) then Inr segments else Inl ValueError)"

definition collection_ref :: "path \<Rightarrow> string \<Rightarrow> error + path" where
  "collection_ref document_path collection_id =
     (let segments = document_path @ [collection_id]
      in if odd (length segments) then Inr segments else Inl ValueError)"

text \<open>
  \<^verbatim>\<open>db.collection("users").document(uid).collection(sub).document(date_str)\<close>, the
  reference each of the store functions builds first.
\<close>

definition day_document :: "string \<Rightarrow> uid \<Rightarrow> date_str \<Rightarrow> error + path" where
  "day_document sub u date_str =
     (case document_ref [''users''] u of
        Inl err \<Rightarrow> Inl err
      | Inr user_doc \<Rightarrow>
          (case collection_ref user_doc sub of
             Inl err \<Rightarrow> Inl err
           | Inr coll \<Rightarrow> document_ref coll date_str))"

section \<open>History assembly\<close>

text \<open>
  The loop of \<^verbatim>\<open>get_session_history\<close> over the stored entries, with the list
  \<^verbatim>\<open>history\<close> built so far as accumulator.
\<close>

fun session_turns :: "string \<Rightarrow> chat_entry list \<Rightarrow> message list \<Rightarrow> error + message list" where
  "session_turns session_id [] history = Inr history"
| "session_turns session_id (chat # chats) history =
     (case ce_session_id chat of
        None \<Rightarrow> Inl (KeyError ''session_id'')
      | Some sid \<Rightarrow>
          if sid = session_id then
            (case ce_user_message chat of
               None \<Rightarrow> Inl (KeyError ''user_message'')
             | Some um \<Rightarrow>
                 (case ce_bot_message chat of
                    None \<Rightarrow> Inl (KeyError ''bot_message'')
                  | Some bm \<Rightarrow>
                      session_turns session_id chats
                        (history @ [\<lparr>role = ''user'', content = um\<rparr>,
                                    \<lparr>role = ''assistant'', content = bm\<rparr>])))
          else session_turns session_id chats history)"

text \<open>\<^verbatim>\<open>chat_doc.to_dict().get("chats", [])\<close>\<close>

definition chats_of :: "history_doc \<Rightarrow> chat_entry list" where
  "chats_of doc = (case hd_chats doc of None \<Rightarrow> [] | Some chats \<Rightarrow> chats)"

text \<open>
  \<^verbatim>\<open>get_session_history(uid, session_id)\<close>; \<open>date_str\<close> is what \<^verbatim>\<open>get_date_str()\<close>
  returns when the function calls it.
\<close>

definition get_session_history ::
  "env \<Rightarrow> date_str \<Rightarrow> uid \<Rightarrow> string \<Rightarrow> store \<Rightarrow> error + message list" where
  "get_session_history e date_str u session_id st =
     (case day_document ''chat_history'' u date_str of
        Inl err \<Rightarrow> Inl err
      | Inr chat_history_ref \<Rightarrow>
          (let history = [\<lparr>role = ''system'', content = system_prompt e\<rparr>] in
           case chat_history st chat_history_ref of
             None \<Rightarrow> Inr history
           | Some chat_doc \<Rightarrow> session_turns session_id (chats_of chat_doc) history))"

section \<open>The document store's merge write\<close>

text \<open>
  \<^verbatim>\<open>firestore.ArrayUnion(elems)\<close> written with \<^verbatim>\<open>set(..., merge=True)\<close>: the store
  unions the given elements with the array the field already holds. Each given element
  that is not in the array yet is added at the end; an element that is already there is
  not added again. A field that does not exist yet starts from the empty array.
\<close>

definition array_union :: "'a list option \<Rightarrow> 'a list \<Rightarrow> 'a list" where
  "array_union cur elems =
     foldl (\<lambda>arr x. if x \<in> set arr then arr else arr @ [x])
       (case cur of None \<Rightarrow> [] | Some arr \<Rightarrow> arr) elems"

text \<open>
  \<^verbatim>\<open>save_user_session(uid, session_id, user_message)\<close>; \<open>date_str\<close> is the result of
  its call of \<^verbatim>\<open>get_date_str()\<close> and \<open>timestamp\<close> that of \<^verbatim>\<open>get_ist_time().isoformat()\<close>.
  The merge creates the document when there is none and sets the two fields it names.
\<close>

definition save_user_session ::
  "date_str \<Rightarrow> string \<Rightarrow> uid \<Rightarrow> string \<Rightarrow> string \<Rightarrow> store \<Rightarrow> error + store" where
  "save_user_session date_str timestamp u session_id user_message st =
     (case day_document ''user_sessions'' u date_str of
        Inl err \<Rightarrow> Inl err
      | Inr user_session_ref \<Rightarrow>
          (let old = (case user_sessions st user_session_ref of
                        None \<Rightarrow> None
                      | Some doc \<Rightarrow> sd_user_messages doc);
               entry = \<lparr>um_session_id = Some session_id,
                        um_user_message = Some user_message,
                        um_timestamp = Some timestamp\<rparr>
           in Inr (st\<lparr>user_sessions := (user_sessions st)
                        (user_session_ref \<mapsto>
                           \<lparr>sd_date = Some date_str,
                            sd_user_messages = Some (array_union old [entry])\<rparr>)\<rparr>)))"

text \<open>\<^verbatim>\<open>save_chat_history(uid, session_id, user_message, bot_message)\<close>, likewise.\<close>

definition save_chat_history ::
  "date_str \<Rightarrow> string \<Rightarrow> uid \<Rightarrow> string \<Rightarrow> string \<Rightarrow> string \<Rightarrow> store \<Rightarrow> error + store" where
  "save_chat_history date_str timestamp u session_id user_message bot_message st =
     (case day_document ''chat_history'' u date_str of
        Inl err \<Rightarrow> Inl err
      | Inr chat_history_ref \<Rightarrow>
          (let old = (case chat_history st chat_history_ref of
                        None \<Rightarrow> None
                      | Some doc \<Rightarrow> hd_chats doc);
               entry = \<lparr>ce_session_id = Some session_id,
                        ce_user_message = Some user_message,
                        ce_bot_message = Some bot_message,
                        ce_timestamp = Some timestamp\<rparr>
           in Inr (st\<lparr>chat_history := (chat_history st)
                        (chat_history_ref \<mapsto>
                           \<lparr>hd_date = Some date_str,
                            hd_chats = Some (array_union old [entry])\<rparr>)\<rparr>)))"

section \<open>Identity resolution\<close>

text \<open>The part of a request that the handlers read.\<close>

record json_body =
  body_session_id :: "string option"
  body_message :: "string option"

record request =
  hdr_x_uid :: "string option"
  hdr_authorization :: "string option"
  req_json :: "json_body option"
  arg_date :: "string option"

text \<open>
  \<^verbatim>\<open>verify_token(request)\<close>. The \<^verbatim>\<open>try\<close> block covers the call of the identity
  service and the lookup of \<^verbatim>\<open>'uid'\<close>; the split and the index stand before it.
\<close>

definition verify_token :: "env \<Rightarrow> request \<Rightarrow> error + string option" where
  "verify_token e request =
     (let test_uid = hdr_x_uid request in
      if truthy test_uid then Inr test_uid
      else
        (case hdr_authorization request of
           None \<Rightarrow> Inr None
         | Some auth_header \<Rightarrow>
             if auth_header = [] \<or> \<not> startswith auth_header ''Bearer '' then Inr None
             else
               (case py_split auth_header ''Bearer '' of
                  Inl err \<Rightarrow> Inl err
                | Inr parts \<Rightarrow>
                    if 1 < length parts then Inr (verify_id_token e (parts ! 1))
                    else Inl IndexError)))"

section \<open>Request handlers\<close>

datatype payload =
    Error (resp_error: string)
  | Chat (resp_text: string) (resp_session_id: string)
  | History (resp_history: "display_item list")

record response =
  status :: nat
  payload :: payload

text \<open>
  One element of the list comprehension in \<^verbatim>\<open>get_chat_history()\<close>: the user item when
  \<^verbatim>\<open>chat.get("user_message")\<close> is truthy, the bot item otherwise.
\<close>

definition display_of :: "chat_entry \<Rightarrow> error + display_item" where
  "display_of chat =
     (if truthy (ce_user_message chat)
      then Inr \<lparr>sender = ''user'', text_of = the (ce_user_message chat)\<rparr>
      else (case ce_bot_message chat of
              None \<Rightarrow> Inl (KeyError ''bot_message'')
            | Some bm \<Rightarrow> Inr \<lparr>sender = ''bot'', text_of = bm\<rparr>))"

fun project :: "chat_entry list \<Rightarrow> error + display_item list" where
  "project [] = Inr []"
| "project (chat # chats) =
     (case display_of chat of
        Inl err \<Rightarrow> Inl err
      | Inr item \<Rightarrow>
          (case project chats of
             Inl err \<Rightarrow> Inl err
           | Inr items \<Rightarrow> Inr (item # items)))"

text \<open>
  What one run of \<^verbatim>\<open>chat()\<close> reads from the time provider and the UUID generator,
  one field for each call: the date and the timestamp in \<^verbatim>\<open>save_user_session\<close>, the
  date in \<^verbatim>\<open>get_session_history\<close>, the date and the timestamp in
  \<^verbatim>\<open>save_chat_history\<close>, and \<^verbatim>\<open>str(uuid.uuid4())\<close>.
\<close>

record readings =
  us_date :: date_str
  us_timestamp :: string
  hist_date :: date_str
  ch_date :: date_str
  ch_timestamp :: string
  uuid4 :: string

text \<open>
  \<^verbatim>\<open>POST /chat\<close>. The result is what the handler returns, or the exception that
  leaves it, together with the store as the run leaves it.
\<close>

definition chat :: "env \<Rightarrow> readings \<Rightarrow> request \<Rightarrow> store \<Rightarrow> (error + response) \<times> store" where
  "chat e r request st =
     (case verify_token e request of
        Inl err \<Rightarrow> (Inl err, st)
      | Inr uid \<Rightarrow>
          if \<not> truthy uid then (Inr \<lparr>status = 401, payload = Error ''Unauthorized''\<rparr>, st)
          else
            (case req_json request of
               None \<Rightarrow> (Inl NoJsonObject, st)
             | Some data \<Rightarrow>
                 (let session_id = py_or (body_session_id data) (uuid4 r);
                      user_message = body_message data
                  in if \<not> truthy user_message
                     then (Inr \<lparr>status = 400, payload = Error ''Message is required''\<rparr>, st)
                     else
                       (case save_user_session (us_date r) (us_timestamp r)
                               (the uid) session_id (the user_message) st of
                          Inl err \<Rightarrow> (Inl err, st)
                        | Inr st1 \<Rightarrow>
                            (case get_session_history e (hist_date r) (the uid) session_id st1 of
                               Inl err \<Rightarrow> (Inl err, st1)
                             | Inr conversation \<Rightarrow>
                                 (case get_response e
                                         (conversation @
                                          [\<lparr>role = ''user'', content = the user_message\<rparr>]) of
                                    None \<Rightarrow> (Inl UpstreamFailure, st1)
                                  | Some bot_response \<Rightarrow>
                                      (case save_chat_history (ch_date r) (ch_timestamp r)
                                              (the uid) session_id (the user_message)
                                              bot_response st1 of
                                         Inl err \<Rightarrow> (Inl err, st1)
                                       | Inr st2 \<Rightarrow>
                                           (Inr \<lparr>status = 200,
                                                 payload = Chat bot_response session_id\<rparr>,
                                            st2))))))))"

text \<open>
  \<^verbatim>\<open>GET /get_chat_history\<close>; \<open>today\<close> is what \<^verbatim>\<open>get_date_str()\<close> returns when the
  handler calls it. The handler only reads the store.
\<close>

definition get_chat_history :: "env \<Rightarrow> date_str \<Rightarrow> request \<Rightarrow> store \<Rightarrow> error + response" where
  "get_chat_history e today request st =
     (case verify_token e request of
        Inl err \<Rightarrow> Inl err
      | Inr uid \<Rightarrow>
          if \<not> truthy uid then Inr \<lparr>status = 401, payload = Error ''Unauthorized''\<rparr>
          else
            (let date_str = py_or (arg_date request) today in
             case day_document ''chat_history'' (the uid) date_str of
               Inl err \<Rightarrow> Inl err
             | Inr chat_history_ref \<Rightarrow>
                 (case chat_history st chat_history_ref of
                    None \<Rightarrow> Inr \<lparr>status = 200, payload = History []\<rparr>
                  | Some chat_doc \<Rightarrow>
                      (case project (chats_of chat_doc) of
                         Inl err \<Rightarrow> Inl err
                       | Inr items \<Rightarrow> Inr \<lparr>status = 200, payload = History items\<rparr>))))"

text \<open>
  The entries a reader finds at a path: none when the document does not exist or has
  no array.
\<close>

definition chats_at :: "store \<Rightarrow> path \<Rightarrow> chat_entry list" where
  "chats_at st p = (case chat_history st p of None \<Rightarrow> [] | Some doc \<Rightarrow> chats_of doc)"

definition user_messages_at :: "store \<Rightarrow> path \<Rightarrow> user_message_entry list" where
  "user_messages_at st p =
     (case user_sessions st p of
        None \<Rightarrow> []
      | Some doc \<Rightarrow> (case sd_user_messages doc of None \<Rightarrow> [] | Some msgs \<Rightarrow> msgs))"

text \<open>
  What the loop of \<^verbatim>\<open>get_session_history\<close> reads of an entry: its session identifier
  always, its two messages when the identifier is the requested one.
\<close>

definition readable :: "string \<Rightarrow> chat_entry \<Rightarrow> bool" where
  "readable session_id c =
     (case ce_session_id c of
        None \<Rightarrow> False
      | Some s \<Rightarrow>
          if s = session_id then ce_user_message c \<noteq> None \<and> ce_bot_message c \<noteq> None
          else True)"

section \<open>Example data\<close>

text \<open>
  An environment whose identity service knows one token, one whose completion service
  fails, and the readings of one request handled within one day.
\<close>

definition example_env :: env where
  "example_env =
     \<lparr>system_prompt = ''SYS'',
      verify_id_token = (\<lambda>t. if t = ''tok'' then Some ''u1'' else None),
      get_response = (\<lambda>conversation. Some ''reply'')\<rparr>"

definition failing_env :: env where
  "failing_env = example_env\<lparr>get_response := (\<lambda>conversation. None)\<rparr>"

definition example_readings :: readings where
  "example_readings =
     \<lparr>us_date = ''2024-05-01'', us_timestamp = ''2024-05-01T11:00:00.417203+05:30'',
      hist_date = ''2024-05-01'',
      ch_date = ''2024-05-01'', ch_timestamp = ''2024-05-01T11:00:02.417203+05:30'',
      uuid4 = ''7c9e6679-7425-40de-944b-e07fc1f90ae7''\<rparr>"

text \<open>
  The store before any write; a day on which user \<open>u1\<close> completed three turns in two
  sessions; a day on which the user completed one turn in a session whose identifier
  is the one the UUID generator gives in \<open>example_readings\<close>; the three-turn day with
  one more turn of session \<open>s1\<close> stored under the day before; a day whose document
  exists but has no \<^verbatim>\<open>chats\<close> field; and a day whose one entry has no
  \<^verbatim>\<open>session_id\<close>.
\<close>

definition empty_store :: store where
  "empty_store = \<lparr>user_sessions = (\<lambda>p. None), chat_history = (\<lambda>p. None)\<rparr>"

definition u1_day :: path where
  "u1_day = [''users'', ''u1'', ''chat_history'', ''2024-05-01'']"

definition three_turns :: "chat_entry list" where
  "three_turns =
     [\<lparr>ce_session_id = Some ''s1'', ce_user_message = Some ''hi'', ce_bot_message = Some ''hello'',
         ce_timestamp = Some ''2024-05-01T10:00:00.417203+05:30''\<rparr>,
      \<lparr>ce_session_id = Some ''s2'', ce_user_message = Some ''q'', ce_bot_message = Some ''a'',
         ce_timestamp = Some ''2024-05-01T10:01:00.417203+05:30''\<rparr>,
      \<lparr>ce_session_id = Some ''s1'', ce_user_message = Some ''more'', ce_bot_message = Some ''sure'',
         ce_timestamp = Some ''2024-05-01T10:02:00.417203+05:30''\<rparr>]"

definition example_day :: store where
  "example_day =
     empty_store\<lparr>chat_history :=
       (chat_history empty_store)
         (u1_day \<mapsto> \<lparr>hd_date = Some ''2024-05-01'', hd_chats = Some three_turns\<rparr>)\<rparr>"

definition one_turn :: chat_entry where
  "one_turn =
     \<lparr>ce_session_id = Some ''7c9e6679-7425-40de-944b-e07fc1f90ae7'',
      ce_user_message = Some ''hi'', ce_bot_message = Some ''hello'',
      ce_timestamp = Some ''2024-05-01T09:00:00.417203+05:30''\<rparr>"

definition earlier_session :: store where
  "earlier_session =
     empty_store\<lparr>chat_history :=
       (chat_history empty_store)
         (u1_day \<mapsto> \<lparr>hd_date = Some ''2024-05-01'', hd_chats = Some [one_turn]\<rparr>)\<rparr>"

definition with_yesterday :: store where
  "with_yesterday =
     example_day\<lparr>chat_history :=
       (chat_history example_day)
         ([''users'', ''u1'', ''chat_history'', ''2024-04-30''] \<mapsto>
            \<lparr>hd_date = Some ''2024-04-30'',
             hd_chats = Some [\<lparr>ce_session_id = Some ''s1'', ce_user_message = Some ''old'',
                                ce_bot_message = Some ''older'',
                                ce_timestamp = Some ''2024-04-30T21:00:00.417203+05:30''\<rparr>]\<rparr>)\<rparr>"

definition no_chats_day :: store where
  "no_chats_day =
     empty_store\<lparr>chat_history :=
       (chat_history empty_store)
         (u1_day \<mapsto> \<lparr>hd_date = Some ''2024-05-01'', hd_chats = None\<rparr>)\<rparr>"

definition no_session_id_day :: store where
  "no_session_id_day =
     empty_store\<lparr>chat_history :=
       (chat_history empty_store)
         (u1_day \<mapsto>
            \<lparr>hd_date = Some ''2024-05-01'',
             hd_chats = Some [\<lparr>ce_session_id = None, ce_user_message = Some ''hi'',
                                ce_bot_message = Some ''hello'',
                                ce_timestamp = Some ''2024-05-01T09:00:00.417203+05:30''\<rparr>]\<rparr>)\<rparr>"

text \<open>
  A day on which session \<open>s1\<close> has two completed turns and an entry of session \<open>s2\<close>
  holds nothing but its session identifier.
\<close>

definition mixed_day :: store where
  "mixed_day =
     empty_store\<lparr>chat_history :=
       (chat_history empty_store)
         (u1_day \<mapsto>
            \<lparr>hd_date = Some ''2024-05-01'',
             hd_chats =
               Some [\<lparr>ce_session_id = Some ''s1'', ce_user_message = Some ''hi'',
                        ce_bot_message = Some ''hello'',
                        ce_timestamp = Some ''2024-05-01T10:00:00.417203+05:30''\<rparr>,
                     \<lparr>ce_session_id = Some ''s2'', ce_user_message = None,
                        ce_bot_message = None, ce_timestamp = None\<rparr>,
                     \<lparr>ce_session_id = Some ''s1'', ce_user_message = Some ''more'',
                        ce_bot_message = Some ''sure'',
                        ce_timestamp = Some ''2024-05-01T10:02:00.417203+05:30''\<rparr>]\<rparr>)\<rparr>"

section \<open>Document paths\<close>

lemma find_sub_absent: "c \<notin> set s \<Longrightarrow> find_sub [c] s = None"
  by (induction s) (auto simp: startswith_def)

lemma find_sub_first: "c \<notin> set a \<Longrightarrow> find_sub [c] (a @ c # b) = Some (length a)"
  by (induction a) (auto simp: startswith_def)

lemma split_at_absent: "c \<notin> set s \<Longrightarrow> split_at [c] s = [s]"
  by (subst split_at.simps) (simp add: find_sub_absent)

lemma split_at_first: "c \<notin> set a \<Longrightarrow> split_at [c] (a @ c # b) = a # split_at [c] b"
  by (subst split_at.simps) (simp add: find_sub_first)

text \<open>Segments without the separator come back from joining and splitting.\<close>

lemma split_at_join:
  "segs \<noteq> [] \<Longrightarrow> list_all (\<lambda>s. c \<notin> set s) segs \<Longrightarrow> split_at [c] (py_join [c] segs) = segs"
proof (induction "[c]" segs rule: py_join.induct)
  case 1
  then show ?case by simp
next
  case (2 x)
  then show ?case by (simp add: split_at_absent)
next
  case (3 x y ys)
  then show ?case by (simp add: split_at_first)
qed

text \<open>
  A user identifier and a date without \<^verbatim>\<open>/\<close> give the four-segment path of the day's
  document.
\<close>

lemma day_document_plain:
  assumes "CHR ''/'' \<notin> set u" and "CHR ''/'' \<notin> set sub" and "CHR ''/'' \<notin> set d"
  shows "day_document sub u d = Inr [''users'', u, sub, d]"
proof -
  from assms(1) have "split_at ''/'' (py_join ''/'' [''users'', u]) = [''users'', u]"
    by (intro split_at_join) simp_all
  then have u: "document_ref [''users''] u = Inr [''users'', u]"
    by (simp add: document_ref_def Let_def)
  from assms have "split_at ''/'' (py_join ''/'' [''users'', u, sub, d]) = [''users'', u, sub, d]"
    by (intro split_at_join) simp_all
  then have "document_ref [''users'', u, sub] d = Inr [''users'', u, sub, d]"
    by (simp add: document_ref_def Let_def)
  with u show ?thesis
    by (simp add: day_document_def collection_ref_def Let_def)
qed

lemma u1_day_chat_history: "day_document ''chat_history'' ''u1'' ''2024-05-01'' = Inr u1_day"
  by (simp add: day_document_plain u1_day_def)

lemma slash_in_uid: "day_document ''chat_history'' ''a/b'' ''2024-05-01'' = Inl ValueError"
  by code_simp

lemma slash_in_date: "day_document ''chat_history'' ''u1'' ''2024-05/01'' = Inl ValueError"
  by code_simp

section \<open>The store operations\<close>

lemma array_union_single:
  "array_union cur [x] =
     (let old = (case cur of None \<Rightarrow> [] | Some arr \<Rightarrow> arr)
      in if x \<in> set old then old else old @ [x])"
  by (simp add: array_union_def Let_def)

lemma entry_in_array_union: "x \<in> set (array_union cur [x])"
  by (simp add: array_union_single Let_def)

lemma save_user_session_chat_history:
  "save_user_session d t u sid m st = Inr st1 \<Longrightarrow> chat_history st1 = chat_history st"
  by (auto simp: save_user_session_def Let_def split: sum.splits)

lemma save_user_session_succeeds:
  "day_document ''user_sessions'' u d = Inr q \<Longrightarrow>
   \<exists>st1. save_user_session d t u sid m st = Inr st1 \<and>
     user_messages_at st1 q =
       array_union (Some (user_messages_at st q))
         [\<lparr>um_session_id = Some sid, um_user_message = Some m, um_timestamp = Some t\<rparr>]"
  by (simp add: save_user_session_def user_messages_at_def Let_def array_union_def
        split: option.split)

lemma save_chat_history_succeeds:
  "day_document ''chat_history'' u d = Inr p \<Longrightarrow>
   \<exists>st2. save_chat_history d t u sid m b st = Inr st2 \<and>
     chats_at st2 p =
       array_union (Some (chats_at st p))
         [\<lparr>ce_session_id = Some sid, ce_user_message = Some m, ce_bot_message = Some b,
            ce_timestamp = Some t\<rparr>]"
  by (simp add: save_chat_history_def chats_at_def chats_of_def Let_def array_union_def
        split: option.split)

lemma example_day_chats: "chats_at example_day u1_day = three_turns"
  by (simp add: example_day_def chats_at_def chats_of_def)

lemma earlier_session_chats: "chats_at earlier_session u1_day = [one_turn]"
  by (simp add: earlier_session_def chats_at_def chats_of_def)

text \<open>
  C5, as the code has it. On a valid document path, \<^verbatim>\<open>save_chat_history\<close> and
  \<^verbatim>\<open>save_user_session\<close> return, and the day's stored sequence afterwards is the
  previous sequence with the new entry added at the end when no equal entry is stored
  yet, and the previous sequence itself when an equal entry is already there: the array
  union adds no duplicate. In both cases the earlier entries stay, unchanged and in
  their order.
\<close>

theorem append_is_array_union:
  assumes "day_document ''chat_history'' u d = Inr p"
    and "day_document ''user_sessions'' u d = Inr q"
  shows "(\<exists>st2. save_chat_history d t u sid m b st = Inr st2 \<and>
            chats_at st2 p =
              (if \<lparr>ce_session_id = Some sid, ce_user_message = Some m, ce_bot_message = Some b,
                    ce_timestamp = Some t\<rparr> \<in> set (chats_at st p)
               then chats_at st p
               else chats_at st p @
                    [\<lparr>ce_session_id = Some sid, ce_user_message = Some m,
                       ce_bot_message = Some b, ce_timestamp = Some t\<rparr>])) \<and>
         (\<exists>st1. save_user_session d t u sid m st = Inr st1 \<and>
            user_messages_at st1 q =
              (if \<lparr>um_session_id = Some sid, um_user_message = Some m, um_timestamp = Some t\<rparr>
                    \<in> set (user_messages_at st q)
               then user_messages_at st q
               else user_messages_at st q @
                    [\<lparr>um_session_id = Some sid, um_user_message = Some m,
                       um_timestamp = Some t\<rparr>]))"
proof (rule conjI)
  from save_chat_history_succeeds [OF assms(1), where t = t and sid = sid and m = m and b = b
      and st = st]
  show "\<exists>st2. save_chat_history d t u sid m b st = Inr st2 \<and>
            chats_at st2 p =
              (if \<lparr>ce_session_id = Some sid, ce_user_message = Some m, ce_bot_message = Some b,
                    ce_timestamp = Some t\<rparr> \<in> set (chats_at st p)
               then chats_at st p
               else chats_at st p @
                    [\<lparr>ce_session_id = Some sid, ce_user_message = Some m,
                       ce_bot_message = Some b, ce_timestamp = Some t\<rparr>])"
    by (simp only: array_union_single Let_def option.case)
next
  from save_user_session_succeeds [OF assms(2), where t = t and sid = sid and m = m and st = st]
  show "\<exists>st1. save_user_session d t u sid m st = Inr st1 \<and>
            user_messages_at st1 q =
              (if \<lparr>um_session_id = Some sid, um_user_message = Some m, um_timestamp = Some t\<rparr>
                    \<in> set (user_messages_at st q)
               then user_messages_at st q
               else user_messages_at st q @
                    [\<lparr>um_session_id = Some sid, um_user_message = Some m,
                       um_timestamp = Some t\<rparr>])"
    by (simp only: array_union_single Let_def option.case)
qed

theorem append_is_array_union_witness:
  "\<exists>st2. save_chat_history ''2024-05-01'' ''2024-05-01T11:00:02.417203+05:30'' ''u1'' ''s1''
           ''again'' ''reply'' example_day = Inr st2 \<and>
         chats_at st2 u1_day =
           three_turns @
           [\<lparr>ce_session_id = Some ''s1'', ce_user_message = Some ''again'',
              ce_bot_message = Some ''reply'',
              ce_timestamp = Some ''2024-05-01T11:00:02.417203+05:30''\<rparr>]"
  using append_is_array_union
        [where u = "''u1''" and d = "''2024-05-01''" and p = u1_day
           and q = "[''users'', ''u1'', ''user_sessions'', ''2024-05-01'']"
           and t = "''2024-05-01T11:00:02.417203+05:30''" and sid = "''s1''"
           and m = "''again''" and b = "''reply''" and st = example_day]
  by (simp add: u1_day_chat_history day_document_plain example_day_chats three_turns_def)

text \<open>
  Writing the turn that \<open>earlier_session\<close> already holds once more, with the same
  session, messages and timestamp, leaves the day's sequence as it was, one entry long.
\<close>

theorem append_counterexample:
  "\<exists>st2. save_chat_history ''2024-05-01'' ''2024-05-01T09:00:00.417203+05:30'' ''u1''
           ''7c9e6679-7425-40de-944b-e07fc1f90ae7'' ''hi'' ''hello'' earlier_session = Inr st2 \<and>
         chats_at st2 u1_day = chats_at earlier_session u1_day \<and>
         length (chats_at st2 u1_day) = 1"
  using save_chat_history_succeeds
        [OF u1_day_chat_history, where t = "''2024-05-01T09:00:00.417203+05:30''"
           and sid = "''7c9e6679-7425-40de-944b-e07fc1f90ae7''" and m = "''hi''"
           and b = "''hello''" and st = earlier_session]
  by (auto simp: array_union_single earlier_session_chats one_turn_def)

section \<open>Identity resolution never raises\<close>

lemma split_at_nonempty: "split_at sep s \<noteq> []"
  by (subst split_at.simps) (simp split: option.split)

lemma startswith_find_sub: "sep \<noteq> [] \<Longrightarrow> startswith s sep \<Longrightarrow> find_sub sep s = Some 0"
  by (cases s) (auto simp: startswith_def)

lemma split_at_startswith: "sep \<noteq> [] \<Longrightarrow> startswith s sep \<Longrightarrow> 1 < length (split_at sep s)"
  using split_at_nonempty [of sep "drop (length sep) s"]
  by (subst split_at.simps) (simp add: startswith_find_sub Suc_lessI)

lemma verify_token_total: "\<exists>uid. verify_token e request = Inr uid"
proof (cases "hdr_authorization request")
  case None
  then show ?thesis by (simp add: verify_token_def Let_def)
next
  case (Some h)
  have "startswith h ''Bearer '' \<Longrightarrow> 1 < length (split_at ''Bearer '' h)"
    by (rule split_at_startswith) simp
  with Some show ?thesis
    by (simp add: verify_token_def py_split_def Let_def)
qed

lemma verify_token_x_uid:
  "hdr_x_uid request = Some u \<Longrightarrow> u \<noteq> [] \<Longrightarrow> verify_token e request = Inr (Some u)"
  by (simp add: verify_token_def Let_def)

lemma split_bearer_bad: "split_at ''Bearer '' ''Bearer bad'' = ['''', ''bad'']"
  by code_simp

section \<open>Properties of history assembly\<close>

text \<open>
  The loop returns exactly on the lists whose entries it can read: every entry with a
  session identifier, the entries of the requested session with both messages. An
  entry of another session is skipped without a look at its messages.
\<close>

lemma session_turns_readable:
  "list_all (readable sid) chats \<Longrightarrow>
   session_turns sid chats history =
     Inr (history @ concat (map (\<lambda>c. [\<lparr>role = ''user'', content = the (ce_user_message c)\<rparr>,
                                        \<lparr>role = ''assistant'', content = the (ce_bot_message c)\<rparr>])
                                (filter (\<lambda>c. ce_session_id c = Some sid) chats)))"
proof (induction chats arbitrary: history)
  case Nil
  show ?case by simp
next
  case (Cons c cs)
  from Cons.prems have c: "readable sid c" and cs: "list_all (readable sid) cs"
    by simp_all
  from c obtain s where s: "ce_session_id c = Some s"
    by (auto simp: readable_def split: option.splits)
  show ?case
  proof (cases "s = sid")
    case True
    with c s obtain um bm where "ce_user_message c = Some um" "ce_bot_message c = Some bm"
      by (auto simp: readable_def)
    with s True show ?thesis
      by (simp add: Cons.IH [OF cs])
  next
    case False
    with s show ?thesis
      by (simp add: Cons.IH [OF cs])
  qed
qed

lemma session_turns_unreadable:
  "\<not> list_all (readable sid) chats \<Longrightarrow> \<exists>k. session_turns sid chats history = Inl (KeyError k)"
proof (induction chats arbitrary: history)
  case Nil
  then show ?case by simp
next
  case (Cons c cs)
  show ?case
  proof (cases "readable sid c")
    case True
    with Cons.prems have "\<not> list_all (readable sid) cs" by simp
    from Cons.IH [OF this] True show ?thesis
      by (auto simp: readable_def split: option.splits if_splits)
  next
    case False
    then show ?thesis
      by (auto simp: readable_def split: option.splits if_splits)
  qed
qed

lemma get_session_history_chats_at:
  "day_document ''chat_history'' u d = Inr p \<Longrightarrow>
   get_session_history e d u sid st =
     session_turns sid (chats_at st p) [\<lparr>role = ''system'', content = system_prompt e\<rparr>]"
  by (simp add: get_session_history_def chats_at_def split: option.split)

text \<open>
  C2, as the code has it. For every user and day whose chat-history path is a valid
  document path, every session, and every stored list in which each entry has a
  session identifier and each entry of the session has both messages, history
  assembly returns the one system entry followed, for every stored entry of that
  session and in stored order, by the entry's user message with role \<open>user\<close> and then
  its bot message with role \<open>assistant\<close>; entries of other sessions contribute
  nothing, whatever else they hold.
\<close>

theorem get_session_history_assembles:
  assumes "day_document ''chat_history'' u today = Inr p"
    and "list_all (readable sid) (chats_at st p)"
  shows "get_session_history e today u sid st =
     Inr (\<lparr>role = ''system'', content = system_prompt e\<rparr> #
          concat (map (\<lambda>c. [\<lparr>role = ''user'', content = the (ce_user_message c)\<rparr>,
                             \<lparr>role = ''assistant'', content = the (ce_bot_message c)\<rparr>])
                      (filter (\<lambda>c. ce_session_id c = Some sid) (chats_at st p))))"
  using session_turns_readable [OF assms(2)]
  by (simp add: get_session_history_chats_at [OF assms(1)])

theorem get_session_history_assembles_witness:
  "get_session_history example_env ''2024-05-01'' ''u1'' ''s1'' mixed_day =
     Inr [\<lparr>role = ''system'', content = ''SYS''\<rparr>,
          \<lparr>role = ''user'', content = ''hi''\<rparr>, \<lparr>role = ''assistant'', content = ''hello''\<rparr>,
          \<lparr>role = ''user'', content = ''more''\<rparr>, \<lparr>role = ''assistant'', content = ''sure''\<rparr>]"
proof -
  have c: "chats_at mixed_day u1_day =
     [\<lparr>ce_session_id = Some ''s1'', ce_user_message = Some ''hi'', ce_bot_message = Some ''hello'',
         ce_timestamp = Some ''2024-05-01T10:00:00.417203+05:30''\<rparr>,
      \<lparr>ce_session_id = Some ''s2'', ce_user_message = None, ce_bot_message = None,
         ce_timestamp = None\<rparr>,
      \<lparr>ce_session_id = Some ''s1'', ce_user_message = Some ''more'', ce_bot_message = Some ''sure'',
         ce_timestamp = Some ''2024-05-01T10:02:00.417203+05:30''\<rparr>]"
    by (simp add: mixed_day_def chats_at_def chats_of_def)
  then have h: "list_all (readable ''s1'') (chats_at mixed_day u1_day)"
    by (simp add: readable_def)
  from get_session_history_assembles [OF u1_day_chat_history h, of example_env] show ?thesis
    by (simp add: c example_env_def)
qed

text \<open>
  For the user identifier \<^verbatim>\<open>a/b\<close> the path \<^verbatim>\<open>users/a/b\<close> has three segments and the
  reference cannot be built; on a day whose entry has no \<^verbatim>\<open>session_id\<close> the loop
  fails at its first read; and for session \<open>s2\<close> of the mixed day it fails at the
  entry's missing \<^verbatim>\<open>user_message\<close>. None of the three calls returns a sequence.
\<close>

theorem get_session_history_counterexample:
  "get_session_history example_env ''2024-05-01'' ''a/b'' ''s1'' empty_store = Inl ValueError \<and>
   get_session_history example_env ''2024-05-01'' ''u1'' ''s1'' no_session_id_day =
     Inl (KeyError ''session_id'') \<and>
   get_session_history example_env ''2024-05-01'' ''u1'' ''s2'' mixed_day =
     Inl (KeyError ''user_message'')"
proof -
  have "get_session_history example_env ''2024-05-01'' ''a/b'' ''s1'' empty_store = Inl ValueError"
    by (simp add: get_session_history_def slash_in_uid)
  moreover
  have "get_session_history example_env ''2024-05-01'' ''u1'' ''s1'' no_session_id_day =
          Inl (KeyError ''session_id'')"
    by (simp add: get_session_history_chats_at [OF u1_day_chat_history] chats_at_def
          chats_of_def no_session_id_day_def)
  moreover
  have "get_session_history example_env ''2024-05-01'' ''u1'' ''s2'' mixed_day =
          Inl (KeyError ''user_message'')"
    by (simp add: get_session_history_chats_at [OF u1_day_chat_history] chats_at_def
          chats_of_def mixed_day_def)
  ultimately show ?thesis by simp
qed

text \<open>
  C6. History assembly reads only the chat-history document of the user under the
  current day: two stores that hold the same document there give the same history,
  whatever they hold under any other date. Entries stored under an earlier date
  never reach the assembled context, whatever their session identifier.
\<close>

theorem get_session_history_today_only:
  assumes "case day_document ''chat_history'' u today of
             Inl err \<Rightarrow> True
           | Inr p \<Rightarrow> chat_history st1 p = chat_history st2 p"
  shows "get_session_history e today u sid st1 = get_session_history e today u sid st2"
  using assms by (simp add: get_session_history_def split: sum.splits)

theorem get_session_history_today_only_witness:
  "chat_history with_yesterday u1_day = chat_history example_day u1_day \<and>
   chats_at with_yesterday [''users'', ''u1'', ''chat_history'', ''2024-04-30''] =
     [\<lparr>ce_session_id = Some ''s1'', ce_user_message = Some ''old'',
         ce_bot_message = Some ''older'', ce_timestamp = Some ''2024-04-30T21:00:00.417203+05:30''\<rparr>] \<and>
   get_session_history example_env ''2024-05-01'' ''u1'' ''s1'' with_yesterday =
     get_session_history example_env ''2024-05-01'' ''u1'' ''s1'' example_day"
proof -
  have h: "chat_history with_yesterday u1_day = chat_history example_day u1_day"
    by (simp add: with_yesterday_def u1_day_def)
  have y: "chats_at with_yesterday [''users'', ''u1'', ''chat_history'', ''2024-04-30''] =
     [\<lparr>ce_session_id = Some ''s1'', ce_user_message = Some ''old'',
         ce_bot_message = Some ''older'', ce_timestamp = Some ''2024-04-30T21:00:00.417203+05:30''\<rparr>]"
    by (simp add: with_yesterday_def chats_at_def chats_of_def)
  from h have "case day_document ''chat_history'' ''u1'' ''2024-05-01'' of
                 Inl err \<Rightarrow> True
               | Inr p \<Rightarrow> chat_history with_yesterday p = chat_history example_day p"
    by (simp add: u1_day_chat_history)
  from get_session_history_today_only [OF this] h y show ?thesis
    by simp
qed

section \<open>Properties of the request handlers\<close>

text \<open>
  C7. When identity resolution fails, that is, the override header is absent or empty
  and the bearer credential is missing, empty, not of the form \<^verbatim>\<open>Bearer <token>\<close>, or
  its token is not verified by the identity service, \<^verbatim>\<open>POST /chat\<close> answers 401 and
  leaves the store as it was, and \<^verbatim>\<open>GET /get_chat_history\<close>, which only reads the
  store, answers 401.
\<close>

theorem chat_unauthorized:
  assumes "\<not> truthy (hdr_x_uid request)"
    and "case hdr_authorization request of
           None \<Rightarrow> True
         | Some h \<Rightarrow> h = [] \<or> \<not> startswith h ''Bearer '' \<or>
                      verify_id_token e (split_at ''Bearer '' h ! 1) = None"
  shows "chat e r request st = (Inr \<lparr>status = 401, payload = Error ''Unauthorized''\<rparr>, st) \<and>
         get_chat_history e today request st =
           Inr \<lparr>status = 401, payload = Error ''Unauthorized''\<rparr>"
proof -
  have "verify_token e request = Inr None"
  proof (cases "hdr_authorization request")
    case None
    with assms(1) show ?thesis by (simp add: verify_token_def Let_def)
  next
    case (Some h)
    have "startswith h ''Bearer '' \<Longrightarrow> 1 < length (split_at ''Bearer '' h)"
      by (rule split_at_startswith) simp
    with Some assms show ?thesis
      by (auto simp: verify_token_def py_split_def Let_def)
  qed
  then show ?thesis
    by (simp add: chat_def get_chat_history_def)
qed

theorem chat_unauthorized_witness:
  "chat example_env example_readings
     \<lparr>hdr_x_uid = Some '''', hdr_authorization = Some ''Bearer bad'',
        req_json = Some \<lparr>body_session_id = None, body_message = Some ''hi''\<rparr>,
        arg_date = None\<rparr> example_day =
     (Inr \<lparr>status = 401, payload = Error ''Unauthorized''\<rparr>, example_day) \<and>
   get_chat_history example_env ''2024-05-01''
     \<lparr>hdr_x_uid = Some '''', hdr_authorization = Some ''Bearer bad'',
        req_json = Some \<lparr>body_session_id = None, body_message = Some ''hi''\<rparr>,
        arg_date = None\<rparr> example_day =
     Inr \<lparr>status = 401, payload = Error ''Unauthorized''\<rparr>"
  by (rule chat_unauthorized) (simp_all add: split_bearer_bad example_env_def)

text \<open>
  C8. An authenticated \<^verbatim>\<open>POST /chat\<close> whose JSON body has no \<^verbatim>\<open>message\<close> field, or an
  empty one, answers 400 and leaves the store as it was.
\<close>

theorem chat_message_required:
  assumes "verify_token e request = Inr (Some u)" and "u \<noteq> []"
    and "req_json request = Some data"
    and "body_message data = None \<or> body_message data = Some []"
  shows "chat e r request st =
           (Inr \<lparr>status = 400, payload = Error ''Message is required''\<rparr>, st)"
  using assms by (auto simp: chat_def Let_def)

theorem chat_message_required_witness:
  "chat example_env example_readings
     \<lparr>hdr_x_uid = Some ''u1'', hdr_authorization = None,
        req_json = Some \<lparr>body_session_id = Some ''s1'', body_message = Some ''''\<rparr>,
        arg_date = None\<rparr> example_day =
     (Inr \<lparr>status = 400, payload = Error ''Message is required''\<rparr>, example_day)"
  by (rule chat_message_required
        [where u = "''u1''"
           and data = "\<lparr>body_session_id = Some ''s1'', body_message = Some []\<rparr>"])
     (simp_all add: verify_token_x_uid)

text \<open>
  A run of \<^verbatim>\<open>chat()\<close> for user \<open>u1\<close> on the example day: the append of the user
  message returns a store with the same chat history.
\<close>

lemma u1_append:
  "\<exists>st1. save_user_session ''2024-05-01'' t ''u1'' sid m st = Inr st1 \<and>
          chat_history st1 = chat_history st"
proof -
  have "day_document ''user_sessions'' ''u1'' ''2024-05-01'' =
          Inr [''users'', ''u1'', ''user_sessions'', ''2024-05-01'']"
    by (simp add: day_document_plain)
  from save_user_session_succeeds [OF this, where t = t and sid = sid and m = m and st = st]
  obtain st1 where "save_user_session ''2024-05-01'' t ''u1'' sid m st = Inr st1"
    by blast
  with save_user_session_chat_history [OF this] show ?thesis
    by simp
qed

lemma example_env_simps:
  "system_prompt example_env = ''SYS''"
  "get_response example_env conversation = Some ''reply''"
  "system_prompt failing_env = ''SYS''"
  "get_response failing_env conversation = None"
  by (simp_all add: example_env_def failing_env_def)

lemma example_readings_simps:
  "us_date example_readings = ''2024-05-01''"
  "us_timestamp example_readings = ''2024-05-01T11:00:00.417203+05:30''"
  "hist_date example_readings = ''2024-05-01''"
  "ch_date example_readings = ''2024-05-01''"
  "ch_timestamp example_readings = ''2024-05-01T11:00:02.417203+05:30''"
  "uuid4 example_readings = ''7c9e6679-7425-40de-944b-e07fc1f90ae7''"
  by (simp_all add: example_readings_def)

lemma chats_at_cong: "chat_history st1 = chat_history st \<Longrightarrow> chats_at st1 p = chats_at st p"
  by (simp add: chats_at_def)

lemma chat_returns:
  assumes "verify_token e request = Inr (Some u)" and "u \<noteq> []"
    and "req_json request = Some data"
    and "body_message data = Some m" and "m \<noteq> []"
    and "sid = py_or (body_session_id data) (uuid4 r)"
    and "save_user_session (us_date r) (us_timestamp r) u sid m st = Inr st'"
    and "get_session_history e (hist_date r) u sid st' = Inr conversation"
    and "get_response e (conversation @ [\<lparr>role = ''user'', content = m\<rparr>]) = Some reply"
    and "save_chat_history (ch_date r) (ch_timestamp r) u sid m reply st' = Inr st''"
  shows "chat e r request st = (Inr \<lparr>status = 200, payload = Chat reply sid\<rparr>, st'')"
  using assms by (simp add: chat_def Let_def)

text \<open>
  C3, as the code has it. For an authenticated \<^verbatim>\<open>POST /chat\<close> with a non-empty message
  whose two writes, history assembly and completion call all return, the response is
  200 and its \<^verbatim>\<open>session_id\<close> is the client's value when the body gives one that is not
  empty; when the field is absent or empty it is the identifier the UUID generator
  returned for this request. The handler compares that identifier with nothing in the
  store.
\<close>

theorem chat_session_id:
  assumes "verify_token e request = Inr (Some u)" and "u \<noteq> []"
    and "req_json request = Some data"
    and "body_message data = Some m" and "m \<noteq> []"
    and "sid = (case body_session_id data of
                  None \<Rightarrow> uuid4 r
                | Some s \<Rightarrow> if s = [] then uuid4 r else s)"
    and "save_user_session (us_date r) (us_timestamp r) u sid m st = Inr st'"
    and "get_session_history e (hist_date r) u sid st' = Inr conversation"
    and "get_response e (conversation @ [\<lparr>role = ''user'', content = m\<rparr>]) = Some reply"
    and "save_chat_history (ch_date r) (ch_timestamp r) u sid m reply st' = Inr st''"
  shows "chat e r request st = (Inr \<lparr>status = 200, payload = Chat reply sid\<rparr>, st'')"
proof -
  from assms(6) have "sid = py_or (body_session_id data) (uuid4 r)"
    by (cases "body_session_id data") simp_all
  from chat_returns [OF assms(1-5) this assms(7-10)] show ?thesis .
qed

theorem chat_session_id_witness:
  "fst (chat example_env example_readings
          \<lparr>hdr_x_uid = Some ''u1'', hdr_authorization = None,
             req_json = Some \<lparr>body_session_id = Some ''s1'', body_message = Some ''again''\<rparr>,
             arg_date = None\<rparr> example_day) =
     Inr \<lparr>status = 200, payload = Chat ''reply'' ''s1''\<rparr>"
proof -
  obtain st1 where
    a: "save_user_session ''2024-05-01'' ''2024-05-01T11:00:00.417203+05:30'' ''u1'' ''s1''
          ''again'' example_day = Inr st1"
    and h: "chat_history st1 = chat_history example_day"
    using u1_append by blast
  have c: "get_session_history example_env ''2024-05-01'' ''u1'' ''s1'' st1 =
      Inr [\<lparr>role = ''system'', content = ''SYS''\<rparr>,
           \<lparr>role = ''user'', content = ''hi''\<rparr>, \<lparr>role = ''assistant'', content = ''hello''\<rparr>,
           \<lparr>role = ''user'', content = ''more''\<rparr>, \<lparr>role = ''assistant'', content = ''sure''\<rparr>]"
    by (simp add: get_session_history_chats_at [OF u1_day_chat_history] chats_at_cong [OF h]
          example_day_chats three_turns_def example_env_simps)
  obtain st2 where
    b: "save_chat_history ''2024-05-01'' ''2024-05-01T11:00:02.417203+05:30'' ''u1'' ''s1''
          ''again'' ''reply'' st1 = Inr st2"
    using save_chat_history_succeeds [OF u1_day_chat_history] by blast
  have "chat example_env example_readings
          \<lparr>hdr_x_uid = Some ''u1'', hdr_authorization = None,
             req_json = Some \<lparr>body_session_id = Some ''s1'', body_message = Some ''again''\<rparr>,
             arg_date = None\<rparr> example_day =
        (Inr \<lparr>status = 200, payload = Chat ''reply'' ''s1''\<rparr>, st2)"
    by (rule chat_session_id
          [where u = "''u1''" and m = "''again''" and st' = st1
             and data = "\<lparr>body_session_id = Some ''s1'', body_message = Some ''again''\<rparr>"
             and conversation =
               "[\<lparr>role = ''system'', content = ''SYS''\<rparr>,
                 \<lparr>role = ''user'', content = ''hi''\<rparr>, \<lparr>role = ''assistant'', content = ''hello''\<rparr>,
                 \<lparr>role = ''user'', content = ''more''\<rparr>,
                 \<lparr>role = ''assistant'', content = ''sure''\<rparr>]"])
       (simp_all add: verify_token_x_uid a b c example_readings_simps example_env_simps)
  then show ?thesis by simp
qed

text \<open>
  The body gives the session identifier \<^verbatim>\<open>""\<close>, the UUID generator returns the
  identifier of the session the user already has in the store, and the response
  carries that identifier: it is not the client's value, and it is not new.
\<close>

theorem chat_session_id_counterexample:
  "fst (chat example_env example_readings
          \<lparr>hdr_x_uid = Some ''u1'', hdr_authorization = None,
             req_json = Some \<lparr>body_session_id = Some '''', body_message = Some ''again''\<rparr>,
             arg_date = None\<rparr> earlier_session) =
     Inr \<lparr>status = 200, payload = Chat ''reply'' ''7c9e6679-7425-40de-944b-e07fc1f90ae7''\<rparr> \<and>
   Some ''7c9e6679-7425-40de-944b-e07fc1f90ae7''
     \<in> set (map ce_session_id (chats_at earlier_session u1_day))"
proof -
  obtain st1 where
    a: "save_user_session ''2024-05-01'' ''2024-05-01T11:00:00.417203+05:30'' ''u1''
          ''7c9e6679-7425-40de-944b-e07fc1f90ae7'' ''again'' earlier_session = Inr st1"
    and h: "chat_history st1 = chat_history earlier_session"
    using u1_append by blast
  have c: "get_session_history example_env ''2024-05-01'' ''u1''
             ''7c9e6679-7425-40de-944b-e07fc1f90ae7'' st1 =
      Inr [\<lparr>role = ''system'', content = ''SYS''\<rparr>,
           \<lparr>role = ''user'', content = ''hi''\<rparr>, \<lparr>role = ''assistant'', content = ''hello''\<rparr>]"
    by (simp add: get_session_history_chats_at [OF u1_day_chat_history] chats_at_cong [OF h]
          earlier_session_chats one_turn_def example_env_simps)
  obtain st2 where
    b: "save_chat_history ''2024-05-01'' ''2024-05-01T11:00:02.417203+05:30'' ''u1''
          ''7c9e6679-7425-40de-944b-e07fc1f90ae7'' ''again'' ''reply'' st1 = Inr st2"
    using save_chat_history_succeeds [OF u1_day_chat_history] by blast
  have "chat example_env example_readings
          \<lparr>hdr_x_uid = Some ''u1'', hdr_authorization = None,
             req_json = Some \<lparr>body_session_id = Some [], body_message = Some ''again''\<rparr>,
             arg_date = None\<rparr> earlier_session =
        (Inr \<lparr>status = 200,
              payload = Chat ''reply'' ''7c9e6679-7425-40de-944b-e07fc1f90ae7''\<rparr>, st2)"
    by (rule chat_returns
          [where u = "''u1''" and m = "''again''" and st' = st1
             and data = "\<lparr>body_session_id = Some [], body_message = Some ''again''\<rparr>"
             and conversation =
               "[\<lparr>role = ''system'', content = ''SYS''\<rparr>,
                 \<lparr>role = ''user'', content = ''hi''\<rparr>,
                 \<lparr>role = ''assistant'', content = ''hello''\<rparr>]"])
       (simp_all add: verify_token_x_uid a b c example_readings_simps example_env_simps)
  then show ?thesis
    by (simp add: earlier_session_chats one_turn_def)
qed

text \<open>
  C4. When the user message has been appended and the completion service then fails,
  the exception leaves the handler: the store is the one \<^verbatim>\<open>save_user_session\<close> left,
  so the day's user messages contain the new message, the chat history is unchanged,
  and nothing undoes the append.
\<close>

theorem chat_completion_failure:
  assumes "verify_token e request = Inr (Some u)" and "u \<noteq> []"
    and "req_json request = Some data"
    and "body_message data = Some m" and "m \<noteq> []"
    and "sid = py_or (body_session_id data) (uuid4 r)"
    and "save_user_session (us_date r) (us_timestamp r) u sid m st = Inr st'"
    and "get_session_history e (hist_date r) u sid st' = Inr conversation"
    and "get_response e (conversation @ [\<lparr>role = ''user'', content = m\<rparr>]) = None"
  shows "chat e r request st = (Inl UpstreamFailure, st') \<and>
         chat_history st' = chat_history st \<and>
         (\<exists>q. day_document ''user_sessions'' u (us_date r) = Inr q \<and>
              \<lparr>um_session_id = Some sid, um_user_message = Some m,
                 um_timestamp = Some (us_timestamp r)\<rparr> \<in> set (user_messages_at st' q))"
proof -
  from assms have c: "chat e r request st = (Inl UpstreamFailure, st')"
    by (simp add: chat_def Let_def)
  from assms(7) obtain q where q: "day_document ''user_sessions'' u (us_date r) = Inr q"
    by (auto simp: save_user_session_def split: sum.splits)
  from save_user_session_succeeds [OF q, where t = "us_timestamp r" and sid = sid and m = m
      and st = st] assms(7)
  have "\<lparr>um_session_id = Some sid, um_user_message = Some m,
          um_timestamp = Some (us_timestamp r)\<rparr> \<in> set (user_messages_at st' q)"
    by (auto simp: entry_in_array_union)
  with c q save_user_session_chat_history [OF assms(7)] show ?thesis
    by blast
qed

theorem chat_completion_failure_witness:
  "\<exists>st1. chat failing_env example_readings
           \<lparr>hdr_x_uid = Some ''u1'', hdr_authorization = None,
              req_json = Some \<lparr>body_session_id = Some ''s1'', body_message = Some ''again''\<rparr>,
              arg_date = None\<rparr> example_day = (Inl UpstreamFailure, st1) \<and>
         chat_history st1 = chat_history example_day \<and>
         \<lparr>um_session_id = Some ''s1'', um_user_message = Some ''again'',
            um_timestamp = Some ''2024-05-01T11:00:00.417203+05:30''\<rparr>
           \<in> set (user_messages_at st1 [''users'', ''u1'', ''user_sessions'', ''2024-05-01''])"
proof -
  obtain st1 where
    a: "save_user_session ''2024-05-01'' ''2024-05-01T11:00:00.417203+05:30'' ''u1'' ''s1''
          ''again'' example_day = Inr st1"
    and h: "chat_history st1 = chat_history example_day"
    using u1_append by blast
  have c: "get_session_history failing_env ''2024-05-01'' ''u1'' ''s1'' st1 =
      Inr [\<lparr>role = ''system'', content = ''SYS''\<rparr>,
           \<lparr>role = ''user'', content = ''hi''\<rparr>, \<lparr>role = ''assistant'', content = ''hello''\<rparr>,
           \<lparr>role = ''user'', content = ''more''\<rparr>, \<lparr>role = ''assistant'', content = ''sure''\<rparr>]"
    by (simp add: get_session_history_chats_at [OF u1_day_chat_history] chats_at_cong [OF h]
          example_day_chats three_turns_def example_env_simps)
  have "chat failing_env example_readings
           \<lparr>hdr_x_uid = Some ''u1'', hdr_authorization = None,
              req_json = Some \<lparr>body_session_id = Some ''s1'', body_message = Some ''again''\<rparr>,
              arg_date = None\<rparr> example_day = (Inl UpstreamFailure, st1) \<and>
        chat_history st1 = chat_history example_day \<and>
        (\<exists>q. day_document ''user_sessions'' ''u1'' (us_date example_readings) = Inr q \<and>
             \<lparr>um_session_id = Some ''s1'', um_user_message = Some ''again'',
                um_timestamp = Some (us_timestamp example_readings)\<rparr>
               \<in> set (user_messages_at st1 q))"
    by (rule chat_completion_failure
          [where data = "\<lparr>body_session_id = Some ''s1'', body_message = Some ''again''\<rparr>"
             and conversation =
               "[\<lparr>role = ''system'', content = ''SYS''\<rparr>,
                 \<lparr>role = ''user'', content = ''hi''\<rparr>, \<lparr>role = ''assistant'', content = ''hello''\<rparr>,
                 \<lparr>role = ''user'', content = ''more''\<rparr>,
                 \<lparr>role = ''assistant'', content = ''sure''\<rparr>]"])
       (simp_all add: verify_token_x_uid a c example_readings_simps example_env_simps)
  then show ?thesis
    by (auto simp: example_readings_simps day_document_plain)
qed

section \<open>Properties of the history endpoint\<close>

lemma get_chat_history_chats_at:
  assumes "verify_token e request = Inr (Some u)" and "u \<noteq> []"
    and "day_document ''chat_history'' u (py_or (arg_date request) today) = Inr p"
  shows "get_chat_history e today request st =
     (case project (chats_at st p) of
        Inl err \<Rightarrow> Inl err
      | Inr items \<Rightarrow> Inr \<lparr>status = 200, payload = History items\<rparr>)"
  using assms
  by (simp add: get_chat_history_def chats_at_def Let_def split: option.split)

lemma get_chat_history_bad_path:
  assumes "verify_token e request = Inr (Some u)" and "u \<noteq> []"
    and "day_document ''chat_history'' u (py_or (arg_date request) today) = Inl err"
  shows "get_chat_history e today request st = Inl err"
  using assms by (simp add: get_chat_history_def Let_def)

text \<open>
  Every entry whose \<^verbatim>\<open>user_message\<close> is truthy gives its user item and nothing else,
  so a day of completed turns is projected to one item for each entry.
\<close>

lemma project_truthy_user_message:
  "list_all (\<lambda>c. truthy (ce_user_message c)) chats \<Longrightarrow>
   project chats = Inr (map (\<lambda>c. \<lparr>sender = ''user'', text_of = the (ce_user_message c)\<rparr>) chats)"
  by (induction chats) (simp_all add: display_of_def)

text \<open>
  C1. The specification asks for two display items for each stored entry, the user
  item and then the bot item. On the day that holds the one turn (\<open>hi\<close>, \<open>hello\<close>)
  the handler answers 200 with the user item alone: the bot message \<open>hello\<close> is not
  in the list.
\<close>

theorem get_chat_history_user_items_only:
  "get_chat_history example_env ''2024-05-02''
     \<lparr>hdr_x_uid = Some ''u1'', hdr_authorization = None, req_json = None,
        arg_date = Some ''2024-05-01''\<rparr> earlier_session =
     Inr \<lparr>status = 200, payload = History [\<lparr>sender = ''user'', text_of = ''hi''\<rparr>]\<rparr>"
  by (subst get_chat_history_chats_at [where u = "''u1''" and p = u1_day])
     (simp_all add: verify_token_x_uid u1_day_chat_history earlier_session_chats one_turn_def
        display_of_def)

text \<open>
  C9, as the code has it. For an authenticated \<^verbatim>\<open>GET /get_chat_history\<close> the target date
  is the \<^verbatim>\<open>date\<close> query parameter when it is present and not empty, and today's date
  when it is absent or empty; when the user and that date give a valid document path
  and no chat-history document exists at it, the response is 200 with an empty
  history.
\<close>

theorem get_chat_history_no_document:
  assumes "verify_token e request = Inr (Some u)" and "u \<noteq> []"
    and "date_str = (case arg_date request of
                       None \<Rightarrow> today
                     | Some d \<Rightarrow> if d = [] then today else d)"
    and "day_document ''chat_history'' u date_str = Inr p"
    and "chat_history st p = None"
  shows "get_chat_history e today request st = Inr \<lparr>status = 200, payload = History []\<rparr>"
proof -
  from assms(3) have "py_or (arg_date request) today = date_str"
    by (cases "arg_date request") simp_all
  with assms show ?thesis
    by (simp add: get_chat_history_def Let_def)
qed

theorem get_chat_history_no_document_witness:
  "get_chat_history example_env ''2024-05-02''
     \<lparr>hdr_x_uid = Some ''u1'', hdr_authorization = None, req_json = None,
        arg_date = Some ''2024-04-30''\<rparr> example_day =
     Inr \<lparr>status = 200, payload = History []\<rparr>"
  by (rule get_chat_history_no_document
        [where u = "''u1''" and date_str = "''2024-04-30''"
           and p = "[''users'', ''u1'', ''chat_history'', ''2024-04-30'']"])
     (simp_all add: verify_token_x_uid day_document_plain example_day_def empty_store_def
        u1_day_def)

text \<open>
  The request \<^verbatim>\<open>GET /get_chat_history?date=\<close> carries the parameter with the empty
  value. The user has no document under that date, yet the response is not the empty
  history: the handler reads today's document. The request
  \<^verbatim>\<open>GET /get_chat_history?date=2024-05/01\<close> names a date under which the user has no
  document either, and the handler raises: the path has five segments.
\<close>

theorem get_chat_history_date_counterexample:
  "chat_history example_day [''users'', ''u1'', ''chat_history'', ''''] = None \<and>
   get_chat_history example_env ''2024-05-01''
     \<lparr>hdr_x_uid = Some ''u1'', hdr_authorization = None, req_json = None,
        arg_date = Some ''''\<rparr> example_day =
     Inr \<lparr>status = 200,
          payload = History [\<lparr>sender = ''user'', text_of = ''hi''\<rparr>,
                             \<lparr>sender = ''user'', text_of = ''q''\<rparr>,
                             \<lparr>sender = ''user'', text_of = ''more''\<rparr>]\<rparr> \<and>
   get_chat_history example_env ''2024-05-02''
     \<lparr>hdr_x_uid = Some ''u1'', hdr_authorization = None, req_json = None,
        arg_date = Some ''2024-05/01''\<rparr> example_day = Inl ValueError"
proof -
  have a: "chat_history example_day [''users'', ''u1'', ''chat_history'', ''''] = None"
    by (simp add: example_day_def empty_store_def u1_day_def)
  have b: "get_chat_history example_env ''2024-05-01''
     \<lparr>hdr_x_uid = Some ''u1'', hdr_authorization = None, req_json = None,
        arg_date = Some ''''\<rparr> example_day =
     Inr \<lparr>status = 200,
          payload = History [\<lparr>sender = ''user'', text_of = ''hi''\<rparr>,
                             \<lparr>sender = ''user'', text_of = ''q''\<rparr>,
                             \<lparr>sender = ''user'', text_of = ''more''\<rparr>]\<rparr>"
    by (subst get_chat_history_chats_at [where u = "''u1''" and p = u1_day])
       (simp_all add: verify_token_x_uid u1_day_chat_history example_day_chats three_turns_def
          display_of_def)
  have c: "get_chat_history example_env ''2024-05-02''
     \<lparr>hdr_x_uid = Some ''u1'', hdr_authorization = None, req_json = None,
        arg_date = Some ''2024-05/01''\<rparr> example_day = Inl ValueError"
    by (rule get_chat_history_bad_path [where u = "''u1''"])
       (simp_all add: verify_token_x_uid slash_in_date)
  from a b c show ?thesis by simp
qed

text \<open>
  C10. When the day's chat-history document exists but has no \<^verbatim>\<open>chats\<close> field, both
  read paths return and treat it as an empty sequence: history assembly gives the
  system entry alone, and an authenticated \<^verbatim>\<open>GET /get_chat_history\<close> for that date
  answers 200 with an empty history.
\<close>

theorem missing_chats_field:
  assumes "day_document ''chat_history'' u d = Inr p"
    and "chat_history st p = Some doc" and "hd_chats doc = None"
    and "verify_token e request = Inr (Some u)" and "u \<noteq> []"
    and "d = (case arg_date request of
                None \<Rightarrow> today
              | Some a \<Rightarrow> if a = [] then today else a)"
  shows "get_session_history e d u sid st =
           Inr [\<lparr>role = ''system'', content = system_prompt e\<rparr>] \<and>
         get_chat_history e today request st = Inr \<lparr>status = 200, payload = History []\<rparr>"
proof -
  from assms(2,3) have "chats_at st p = []"
    by (simp add: chats_at_def chats_of_def)
  moreover from assms(6) have "py_or (arg_date request) today = d"
    by (cases "arg_date request") simp_all
  ultimately show ?thesis
    using assms(1,4,5)
    by (simp add: get_session_history_chats_at get_chat_history_chats_at)
qed

theorem missing_chats_field_witness:
  "get_session_history example_env ''2024-05-01'' ''u1'' ''s1'' no_chats_day =
     Inr [\<lparr>role = ''system'', content = ''SYS''\<rparr>] \<and>
   get_chat_history example_env ''2024-05-01''
     \<lparr>hdr_x_uid = Some ''u1'', hdr_authorization = None, req_json = None,
        arg_date = None\<rparr> no_chats_day =
     Inr \<lparr>status = 200, payload = History []\<rparr>"
  using missing_chats_field
        [where st = no_chats_day and u = "''u1''" and d = "''2024-05-01''" and p = u1_day
           and doc = "\<lparr>hd_date = Some ''2024-05-01'', hd_chats = None\<rparr>"
           and e = example_env and today = "''2024-05-01''" and sid = "''s1''"
           and request = "\<lparr>hdr_x_uid = Some ''u1'', hdr_authorization = None, req_json = None,
                arg_date = None\<rparr>"]
  by (simp add: no_chats_day_def verify_token_x_uid u1_day_chat_history example_env_simps)

end
